theory Spec2Isabelle
  imports Main "HOL-Library.Multiset"
begin

section \<open>The browser state the theme scripts act on\<close>

text \<open>
  Both theme scripts (\<^verbatim>\<open>src/scripts/theme.js\<close> and \<^verbatim>\<open>src/theme.js\<close>) run once per page
  load, top to bottom, and register one click listener. They touch three ambient objects:
  \<^item> \<^verbatim>\<open>localStorage\<close>, a store from string keys to string values;
  \<^item> the attributes of \<^verbatim>\<open>document.documentElement\<close>;
  \<^item> the element found by \<^verbatim>\<open>document.querySelector('.theme-toggle')\<close>, which is
    \<^verbatim>\<open>null\<close> on a page without such an element.
  A JavaScript string is modelled as a \<open>string\<close>; a character outside ASCII is given by the
  UTF-8 bytes it has in the source file. \<^verbatim>\<open>null\<close> is \<open>None\<close>.
  The storage is assumed to be available and to accept writes (a browser that blocks
  \<^verbatim>\<open>localStorage\<close> is outside the model).
\<close>

datatype js_error = TypeError

text \<open>
  What the toggle element holds: the scripts assign either its \<^verbatim>\<open>textContent\<close> or its
  \<^verbatim>\<open>innerHTML\<close>.
\<close>

datatype markup = TextContent string | InnerHTML string

record page =
  localStorage :: "string \<rightharpoonup> string"
  attributes :: "string \<rightharpoonup> string"
  themeToggle :: "markup option"
  click_listener :: bool

text \<open>
  \<open>themeToggle p = None\<close> says that the page has no element of class \<^verbatim>\<open>theme-toggle\<close>;
  \<open>click_listener p\<close> says that the script's listener has been registered on it.
  A script that throws stops where it throws; what it did before stays done, so an
  outcome carries the page reached in both cases.
\<close>

datatype outcome = Completed page | Uncaught js_error page

fun page_of :: "outcome \<Rightarrow> page" where
  "page_of (Completed p) = p"
| "page_of (Uncaught e p) = p"

fun completed :: "outcome \<Rightarrow> bool" where
  "completed (Completed p) = True"
| "completed (Uncaught e p) = False"

definition getItem :: "page \<Rightarrow> string \<Rightarrow> string option" where
  "getItem p k = localStorage p k"

definition setItem :: "page \<Rightarrow> string \<Rightarrow> string \<Rightarrow> page" where
  "setItem p k v = p\<lparr>localStorage := (localStorage p)(k \<mapsto> v)\<rparr>"

definition getAttribute :: "page \<Rightarrow> string \<Rightarrow> string option" where
  "getAttribute p k = attributes p k"

definition setAttribute :: "page \<Rightarrow> string \<Rightarrow> string \<Rightarrow> page" where
  "setAttribute p k v = p\<lparr>attributes := (attributes p)(k \<mapsto> v)\<rparr>"

text \<open>
  \<^verbatim>\<open>a || b\<close> where \<open>a\<close> is a string or \<^verbatim>\<open>null\<close>: both \<^verbatim>\<open>null\<close> and the empty
  string are falsy.
\<close>

definition js_or :: "string option \<Rightarrow> string \<Rightarrow> string" where
  "js_or a b = (case a of None \<Rightarrow> b | Some s \<Rightarrow> if s = [] then b else s)"

text \<open>
  \<^verbatim>\<open>const currentTheme = localStorage.getItem('theme') ||
    (prefersDarkScheme.matches ? 'dark' : 'light');\<close>
  (lines 6-7 of both scripts); \<open>matches\<close> is \<^verbatim>\<open>prefersDarkScheme.matches\<close>.
\<close>

definition currentTheme :: "bool \<Rightarrow> page \<Rightarrow> string" where
  "currentTheme matches p =
     js_or (getItem p ''theme'') (if matches then ''dark'' else ''light'')"

text \<open>
  \<^verbatim>\<open>document.documentElement.getAttribute('data-theme') === 'dark' ? 'light' : 'dark'\<close>
  (the click listener of both scripts).
\<close>

definition newTheme :: "page \<Rightarrow> string" where
  "newTheme p =
     (if getAttribute p ''data-theme'' = Some ''dark'' then ''light'' else ''dark'')"

section \<open>\<^verbatim>\<open>src/scripts/theme.js\<close>: the toggle shows an emoji\<close>

text \<open>The sun (U+2600 U+FE0F) and the crescent moon (U+1F319) of lines 11 and 20.\<close>

definition sun_emoji :: string where
  "sun_emoji = [CHR 0xE2, CHR 0x98, CHR 0x80, CHR 0xEF, CHR 0xB8, CHR 0x8F]"

definition moon_emoji :: string where
  "moon_emoji = [CHR 0xF0, CHR 0x9F, CHR 0x8C, CHR 0x99]"

text \<open>
  Lines 6-21, run on page load. Line 10 sets the attribute; line 11 assigns
  \<^verbatim>\<open>themeToggle.textContent\<close>, which throws a \<^verbatim>\<open>TypeError\<close> when \<^verbatim>\<open>themeToggle\<close> is
  \<^verbatim>\<open>null\<close>; line 14 registers the listener.
\<close>

definition scripts_theme_load :: "bool \<Rightarrow> page \<Rightarrow> outcome" where
  "scripts_theme_load matches p =
     (let theme = currentTheme matches p;
          p1 = setAttribute p ''data-theme'' theme
      in case themeToggle p1 of
           None \<Rightarrow> Uncaught TypeError p1
         | Some old \<Rightarrow>
             Completed (p1\<lparr>themeToggle :=
                              Some (TextContent (if theme = ''dark'' then sun_emoji else moon_emoji)),
                            click_listener := True\<rparr>))"

text \<open>The body of the click listener, lines 15-20.\<close>

definition scripts_theme_click :: "page \<Rightarrow> outcome" where
  "scripts_theme_click p =
     (let new = newTheme p;
          p1 = setAttribute p ''data-theme'' new;
          p2 = setItem p1 ''theme'' new
      in case themeToggle p2 of
           None \<Rightarrow> Uncaught TypeError p2
         | Some old \<Rightarrow>
             Completed (p2\<lparr>themeToggle :=
                              Some (TextContent (if new = ''dark'' then sun_emoji else moon_emoji))\<rparr>))"

section \<open>\<^verbatim>\<open>src/theme.js\<close>: the toggle shows an inline SVG\<close>

definition sunIcon :: string where
  \<open>sunIcon =
     ''\<newline>'' @
     ''<svg width="24" height="24" fill="white" stroke="white" stroke-width="2" viewBox="0 0 24 24" color="black">\<newline>'' @
     ''  <circle cx="12" cy="12" r="5"></circle>\<newline>'' @
     ''  <path d="M12 1v2"></path>\<newline>'' @
     ''  <path d="M12 21v2"></path>\<newline>'' @
     ''  <path d="M4.22 4.22l1.42 1.42"></path>\<newline>'' @
     ''  <path d="M18.36 18.36l1.42 1.42"></path>\<newline>'' @
     ''  <path d="M1 12h2"></path>\<newline>'' @
     ''  <path d="M21 12h2"></path>\<newline>'' @
     ''  <path d="M4.22 19.78l1.42-1.42"></path>\<newline>'' @
     ''  <path d="M18.36 5.64l1.42-1.42"></path>\<newline>'' @
     ''</svg>\<newline>''\<close>

definition moonIcon :: string where
  \<open>moonIcon =
     ''\<newline>'' @
     ''<svg width="24" height="24" fill="#333" stroke="#333" stroke-width="2" viewBox="0 0 24 24">\<newline>'' @
     ''  <path d="M21 12.79A9 9 0 1 1 11.21 3 7 7 0 0 0 21 12.79z"></path>\<newline>'' @
     ''</svg>\<newline>''\<close>

text \<open>
  Lines 6-42, run on page load. Line 10 sets the attribute; line 32 assigns
  \<^verbatim>\<open>themeToggle.innerHTML\<close> (a \<^verbatim>\<open>TypeError\<close> on \<^verbatim>\<open>null\<close>); line 35 registers the
  listener.
\<close>

definition theme_load :: "bool \<Rightarrow> page \<Rightarrow> outcome" where
  "theme_load matches p =
     (let theme = currentTheme matches p;
          p1 = setAttribute p ''data-theme'' theme
      in case themeToggle p1 of
           None \<Rightarrow> Uncaught TypeError p1
         | Some old \<Rightarrow>
             Completed (p1\<lparr>themeToggle :=
                              Some (InnerHTML (if theme = ''dark'' then sunIcon else moonIcon)),
                            click_listener := True\<rparr>))"

text \<open>The body of the click listener, lines 36-41.\<close>

definition theme_click :: "page \<Rightarrow> outcome" where
  "theme_click p =
     (let new = newTheme p;
          p1 = setAttribute p ''data-theme'' new;
          p2 = setItem p1 ''theme'' new
      in case themeToggle p2 of
           None \<Rightarrow> Uncaught TypeError p2
         | Some old \<Rightarrow>
             Completed (p2\<lparr>themeToggle :=
                              Some (InnerHTML (if new = ''dark'' then sunIcon else moonIcon))\<rparr>))"

section \<open>Click events and page loads\<close>

text \<open>
  A click on the toggle runs the listener when one is registered, and does nothing
  otherwise. An exception thrown by a listener is reported by the browser and does not
  undo what the listener did.
\<close>

definition click_event :: "(page \<Rightarrow> outcome) \<Rightarrow> page \<Rightarrow> page" where
  "click_event listener p = (if click_listener p then page_of (listener p) else p)"

fun clicks :: "(page \<Rightarrow> outcome) \<Rightarrow> nat \<Rightarrow> page \<Rightarrow> page" where
  "clicks listener 0 p = p"
| "clicks listener (Suc n) p = clicks listener n (click_event listener p)"

text \<open>A page load that runs the script, followed by \<open>n\<close> clicks on the toggle.\<close>

definition scripts_theme_session :: "bool \<Rightarrow> nat \<Rightarrow> page \<Rightarrow> page" where
  "scripts_theme_session matches n p =
     clicks scripts_theme_click n (page_of (scripts_theme_load matches p))"

definition theme_session :: "bool \<Rightarrow> nat \<Rightarrow> page \<Rightarrow> page" where
  "theme_session matches n p = clicks theme_click n (page_of (theme_load matches p))"

text \<open>The two observations the properties below are about.\<close>

abbreviation data_theme :: "page \<Rightarrow> string option" where
  "data_theme p \<equiv> getAttribute p ''data-theme''"

abbreviation stored_theme :: "page \<Rightarrow> string option" where
  "stored_theme p \<equiv> getItem p ''theme''"

text \<open>
  Concrete pages for the examples: a freshly parsed document with a toggle element whose
  markup the script has not touched yet, no \<^verbatim>\<open>data-theme\<close> attribute and an empty storage;
  and the same document on a browser that has some value stored under \<^verbatim>\<open>theme\<close>.
\<close>

definition first_visit :: page where
  "first_visit =
     \<lparr>localStorage = Map.empty, attributes = Map.empty,
      themeToggle = Some (TextContent []), click_listener = False\<rparr>"

definition visit_with :: "string \<Rightarrow> page" where
  "visit_with s = setItem first_visit ''theme'' s"

text \<open>
  The toggle shows the icon of the current theme: the sun when the \<^verbatim>\<open>data-theme\<close>
  attribute is \<^verbatim>\<open>dark\<close>, the moon otherwise, in the markup of the script that ran.
\<close>

definition scripts_icon_shown :: "page \<Rightarrow> bool" where
  "scripts_icon_shown a =
     (themeToggle a =
        Some (TextContent (if data_theme a = Some ''dark'' then sun_emoji else moon_emoji)))"

definition theme_icon_shown :: "page \<Rightarrow> bool" where
  "theme_icon_shown a =
     (themeToggle a =
        Some (InnerHTML (if data_theme a = Some ''dark'' then sunIcon else moonIcon)))"

text \<open>A page without a toggle element.\<close>

definition no_toggle_page :: page where
  "no_toggle_page = first_visit\<lparr>themeToggle := None\<rparr>"

section \<open>The RSS feed of the site generator\<close>

text \<open>
  Modelled from the spec: the page record that the meta parser of
  \<^verbatim>\<open>scripts/utils.py\<close> extracts from one HTML page (the Python scripts are not part of
  the sources at hand). The published timestamp is optional; it is an integer, so that
  two timestamps always compare.
\<close>

record page_record =
  path :: string
  title :: string
  description :: string
  canonical_url :: string
  og_type :: string
  published :: "int option"
  social_card :: "(string \<times> string) list"

text \<open>
  Modelled from the spec: an entry of the RSS feed written by
  \<^verbatim>\<open>scripts/generate_meta.py\<close>, carrying title, link, description and publish date.
\<close>

record rss_entry =
  rss_title :: string
  rss_link :: string
  rss_description :: string
  rss_pubDate :: int

text \<open>
  Modelled from the spec: a page that lacks a field required for its type is either
  skipped with a warning or makes the generation fail, per configured policy.
\<close>

datatype missing_field_policy = SkipWithWarning | FailLoudly

text \<open>
  Modelled from the spec: the loud failure of \<^verbatim>\<open>scripts/generate_meta.py\<close>; it names, by
  its path, the article-type page that lacks a published timestamp.
\<close>

datatype generator_error = MissingPublished string

text \<open>Modelled from the spec: the article-type pages are those whose og:type is "article".\<close>

definition is_article :: "page_record \<Rightarrow> bool" where
  "is_article p = (og_type p = ''article'')"

text \<open>
  Modelled from the spec: the feed entry of a page of \<^verbatim>\<open>scripts/generate_meta.py\<close>; a
  page without a published timestamp has none.
\<close>

definition rss_entry_of :: "page_record \<Rightarrow> rss_entry option" where
  "rss_entry_of p =
     (case published p of
        None \<Rightarrow> None
      | Some t \<Rightarrow>
          Some \<lparr>rss_title = title p, rss_link = canonical_url p,
                rss_description = description p, rss_pubDate = t\<rparr>)"

text \<open>
  Modelled from the spec: the walk of \<^verbatim>\<open>scripts/generate_meta.py\<close> over the page records,
  one entry per article-type page; an article without a timestamp is handled by the
  policy.
\<close>

fun rss_entries :: "missing_field_policy \<Rightarrow> page_record list \<Rightarrow> generator_error + rss_entry list" where
  "rss_entries pol [] = Inr []"
| "rss_entries pol (p # ps) =
     (if \<not> is_article p then rss_entries pol ps
      else case rss_entry_of p of
             None \<Rightarrow>
               (case pol of
                  FailLoudly \<Rightarrow> Inl (MissingPublished (path p))
                | SkipWithWarning \<Rightarrow> rss_entries pol ps)
           | Some e \<Rightarrow>
               (case rss_entries pol ps of
                  Inl err \<Rightarrow> Inl err
                | Inr es \<Rightarrow> Inr (e # es)))"

text \<open>
  Modelled from the spec: the ordering of the feed of \<^verbatim>\<open>scripts/generate_meta.py\<close> by
  published timestamp, descending (an insertion sort that keeps the input order of equal
  timestamps).
\<close>

fun newest_first_insert :: "rss_entry \<Rightarrow> rss_entry list \<Rightarrow> rss_entry list" where
  "newest_first_insert e [] = [e]"
| "newest_first_insert e (x # xs) =
     (if rss_pubDate x \<le> rss_pubDate e then e # x # xs else x # newest_first_insert e xs)"

text \<open>
  Modelled from the spec: the sort of \<^verbatim>\<open>scripts/generate_meta.py\<close> that puts the entries
  in that order.
\<close>

fun newest_first :: "rss_entry list \<Rightarrow> rss_entry list" where
  "newest_first [] = []"
| "newest_first (e # es) = newest_first_insert e (newest_first es)"

text \<open>Modelled from the spec: the RSS feed that \<^verbatim>\<open>scripts/generate_meta.py\<close> emits.\<close>

definition rss_feed :: "missing_field_policy \<Rightarrow> page_record list \<Rightarrow> generator_error + rss_entry list" where
  "rss_feed pol pages =
     (case rss_entries pol pages of
        Inl err \<Rightarrow> Inl err
      | Inr es \<Rightarrow> Inr (newest_first es))"

text \<open>Three page records for the examples: two dated articles and the blog index.\<close>

definition example_pages :: "page_record list" where
  "example_pages =
     [\<lparr>path = ''blog/first-impressions.html'', title = ''First impressions'',
       description = ''A first look'', canonical_url = ''https://example.org/blog/first-impressions.html'',
       og_type = ''article'', published = Some 100, social_card = []\<rparr>,
      \<lparr>path = ''blog/index.html'', title = ''Blog'',
       description = ''All posts'', canonical_url = ''https://example.org/blog/'',
       og_type = ''website'', published = None, social_card = []\<rparr>,
      \<lparr>path = ''blog/reviewing.html'', title = ''Reviewing'',
       description = ''On code review'', canonical_url = ''https://example.org/blog/reviewing.html'',
       og_type = ''article'', published = Some 200, social_card = []\<rparr>]"

text \<open>
  The inputs the feed ordering is stated for: every article-type page has a published
  timestamp, and no two article-type pages share one.
\<close>

definition articles_dated :: "page_record list \<Rightarrow> bool" where
  "articles_dated pages = list_all (\<lambda>p. published p \<noteq> None) (filter is_article pages)"

definition distinct_dates :: "page_record list \<Rightarrow> bool" where
  "distinct_dates pages = distinct (map published (filter is_article pages))"

text \<open>\<open>newer a b\<close>: entry \<open>a\<close> was published strictly after entry \<open>b\<close>.\<close>

definition newer :: "rss_entry \<Rightarrow> rss_entry \<Rightarrow> bool" where
  "newer a b = (rss_pubDate b < rss_pubDate a)"

section \<open>What each script does to the page\<close>

lemma scripts_theme_load_fields:
  "attributes (page_of (scripts_theme_load m p)) = (attributes p)(''data-theme'' \<mapsto> currentTheme m p)"
  "localStorage (page_of (scripts_theme_load m p)) = localStorage p"
  "themeToggle (page_of (scripts_theme_load m p)) =
     (case themeToggle p of None \<Rightarrow> None
      | Some old \<Rightarrow> Some (TextContent (if currentTheme m p = ''dark'' then sun_emoji else moon_emoji)))"
  "click_listener (page_of (scripts_theme_load m p)) = (themeToggle p \<noteq> None \<or> click_listener p)"
  "completed (scripts_theme_load m p) = (themeToggle p \<noteq> None)"
  by (simp_all add: scripts_theme_load_def setAttribute_def Let_def split: option.split)

lemma theme_load_fields:
  "attributes (page_of (theme_load m p)) = (attributes p)(''data-theme'' \<mapsto> currentTheme m p)"
  "localStorage (page_of (theme_load m p)) = localStorage p"
  "themeToggle (page_of (theme_load m p)) =
     (case themeToggle p of None \<Rightarrow> None
      | Some old \<Rightarrow> Some (InnerHTML (if currentTheme m p = ''dark'' then sunIcon else moonIcon)))"
  "click_listener (page_of (theme_load m p)) = (themeToggle p \<noteq> None \<or> click_listener p)"
  "completed (theme_load m p) = (themeToggle p \<noteq> None)"
  by (simp_all add: theme_load_def setAttribute_def Let_def split: option.split)

lemma scripts_theme_click_fields:
  "attributes (page_of (scripts_theme_click p)) = (attributes p)(''data-theme'' \<mapsto> newTheme p)"
  "localStorage (page_of (scripts_theme_click p)) = (localStorage p)(''theme'' \<mapsto> newTheme p)"
  "themeToggle (page_of (scripts_theme_click p)) =
     (case themeToggle p of None \<Rightarrow> None
      | Some old \<Rightarrow> Some (TextContent (if newTheme p = ''dark'' then sun_emoji else moon_emoji)))"
  "click_listener (page_of (scripts_theme_click p)) = click_listener p"
  "completed (scripts_theme_click p) = (themeToggle p \<noteq> None)"
  by (simp_all add: scripts_theme_click_def setAttribute_def setItem_def Let_def split: option.split)

lemma theme_click_fields:
  "attributes (page_of (theme_click p)) = (attributes p)(''data-theme'' \<mapsto> newTheme p)"
  "localStorage (page_of (theme_click p)) = (localStorage p)(''theme'' \<mapsto> newTheme p)"
  "themeToggle (page_of (theme_click p)) =
     (case themeToggle p of None \<Rightarrow> None
      | Some old \<Rightarrow> Some (InnerHTML (if newTheme p = ''dark'' then sunIcon else moonIcon)))"
  "click_listener (page_of (theme_click p)) = click_listener p"
  "completed (theme_click p) = (themeToggle p \<noteq> None)"
  by (simp_all add: theme_click_def setAttribute_def setItem_def Let_def split: option.split)

lemmas script_fields =
  scripts_theme_load_fields theme_load_fields scripts_theme_click_fields theme_click_fields

lemma first_visit_fields:
  "localStorage first_visit = Map.empty"
  "attributes first_visit = Map.empty"
  "themeToggle first_visit = Some (TextContent [])"
  "click_listener first_visit = False"
  by (simp_all add: first_visit_def)

lemma visit_with_fields:
  "localStorage (visit_with s) = [''theme'' \<mapsto> s]"
  "attributes (visit_with s) = Map.empty"
  "themeToggle (visit_with s) = Some (TextContent [])"
  "click_listener (visit_with s) = False"
  by (simp_all add: visit_with_def setItem_def first_visit_def)

lemma newTheme_cases:
  "data_theme p = Some ''dark'' \<Longrightarrow> newTheme p = ''light''"
  "data_theme p \<noteq> Some ''dark'' \<Longrightarrow> newTheme p = ''dark''"
  by (simp_all add: newTheme_def)

lemma currentTheme_cases:
  "stored_theme p = Some s \<Longrightarrow> s \<noteq> [] \<Longrightarrow> currentTheme m p = s"
  "stored_theme p = None \<or> stored_theme p = Some [] \<Longrightarrow> currentTheme m p = (if m then ''dark'' else ''light'')"
  by (auto simp add: currentTheme_def js_or_def)

section \<open>The theme resolved on page load\<close>

text \<open>
  Claim C1. On page load the theme applied to the document (its \<^verbatim>\<open>data-theme\<close>
  attribute) is resolved in priority order, for every stored value and every OS
  colour-scheme signal: a persisted preference, when there is one, is used; otherwise a
  dark OS preference gives dark; otherwise the theme is light. A preference is there when
  \<^verbatim>\<open>getItem\<close> returns a string that \<^verbatim>\<open>||\<close> takes as true, that is, a non-empty one.
  The attribute is set before the toggle element is touched, so this holds on a page
  without a toggle as well, and for both scripts.
\<close>

theorem load_resolves_theme_in_priority_order:
  "(stored_theme p = Some s \<and> s \<noteq> [] \<longrightarrow>
      data_theme (page_of (scripts_theme_load matches p)) = Some s \<and>
      data_theme (page_of (theme_load matches p)) = Some s) \<and>
   ((stored_theme p = None \<or> stored_theme p = Some []) \<and> matches \<longrightarrow>
      data_theme (page_of (scripts_theme_load matches p)) = Some ''dark'' \<and>
      data_theme (page_of (theme_load matches p)) = Some ''dark'') \<and>
   ((stored_theme p = None \<or> stored_theme p = Some []) \<and> \<not> matches \<longrightarrow>
      data_theme (page_of (scripts_theme_load matches p)) = Some ''light'' \<and>
      data_theme (page_of (theme_load matches p)) = Some ''light'')"
  by (auto simp add: getAttribute_def script_fields currentTheme_cases)

theorem load_resolves_theme_in_priority_order_witness:
  "(stored_theme (visit_with ''light'') = Some ''light'' \<and> ''light'' \<noteq> [] \<and>
      data_theme (page_of (scripts_theme_load True (visit_with ''light''))) = Some ''light'' \<and>
      data_theme (page_of (theme_load True (visit_with ''light''))) = Some ''light'') \<and>
   (stored_theme first_visit = None \<and>
      data_theme (page_of (scripts_theme_load True first_visit)) = Some ''dark'' \<and>
      data_theme (page_of (theme_load True first_visit)) = Some ''dark'') \<and>
   (stored_theme first_visit = None \<and>
      data_theme (page_of (scripts_theme_load False first_visit)) = Some ''light'' \<and>
      data_theme (page_of (theme_load False first_visit)) = Some ''light'')"
  using load_resolves_theme_in_priority_order [of "visit_with ''light''" "''light''" True]
    load_resolves_theme_in_priority_order [of first_visit "''x''" True]
    load_resolves_theme_in_priority_order [of first_visit "''x''" False]
  by (simp add: getItem_def visit_with_fields first_visit_fields)

section \<open>The click listener\<close>

text \<open>
  Claim C2. One click on the toggle flips the theme: from \<^verbatim>\<open>dark\<close> the listener goes
  to \<^verbatim>\<open>light\<close>, from \<^verbatim>\<open>light\<close> to \<^verbatim>\<open>dark\<close>. Within that one run of the listener
  the \<^verbatim>\<open>data-theme\<close> attribute and the value stored under \<^verbatim>\<open>theme\<close> become the new
  theme and the toggle shows the icon of the new theme (the sun for dark, the moon for
  light); the listener completes. A click is on the toggle element, so the page has one.
\<close>
theorem click_flips_theme:
  assumes "themeToggle p \<noteq> None"
  shows
    "(data_theme p = Some ''dark'' \<longrightarrow>
        completed (scripts_theme_click p) \<and>
        data_theme (page_of (scripts_theme_click p)) = Some ''light'' \<and>
        stored_theme (page_of (scripts_theme_click p)) = Some ''light'' \<and>
        themeToggle (page_of (scripts_theme_click p)) = Some (TextContent moon_emoji) \<and>
        completed (theme_click p) \<and>
        data_theme (page_of (theme_click p)) = Some ''light'' \<and>
        stored_theme (page_of (theme_click p)) = Some ''light'' \<and>
        themeToggle (page_of (theme_click p)) = Some (InnerHTML moonIcon)) \<and>
     (data_theme p = Some ''light'' \<longrightarrow>
        completed (scripts_theme_click p) \<and>
        data_theme (page_of (scripts_theme_click p)) = Some ''dark'' \<and>
        stored_theme (page_of (scripts_theme_click p)) = Some ''dark'' \<and>
        themeToggle (page_of (scripts_theme_click p)) = Some (TextContent sun_emoji) \<and>
        completed (theme_click p) \<and>
        data_theme (page_of (theme_click p)) = Some ''dark'' \<and>
        stored_theme (page_of (theme_click p)) = Some ''dark'' \<and>
        themeToggle (page_of (theme_click p)) = Some (InnerHTML sunIcon))"
proof -
  from assms obtain old where toggle: "themeToggle p = Some old"
    by auto
  have dark: "newTheme p = ''light''" if "data_theme p = Some ''dark''"
    using that by (simp add: newTheme_cases)
  have light: "newTheme p = ''dark''" if "data_theme p = Some ''light''"
    using that by (simp add: newTheme_cases)
  show ?thesis
    using toggle dark light
    by (simp add: getAttribute_def getItem_def script_fields)
qed

theorem click_flips_theme_witness:
  "themeToggle (page_of (theme_load True first_visit)) \<noteq> None \<and>
   data_theme (page_of (theme_load True first_visit)) = Some ''dark'' \<and>
   data_theme (page_of (theme_click (page_of (theme_load True first_visit)))) = Some ''light'' \<and>
   stored_theme (page_of (theme_click (page_of (theme_load True first_visit)))) = Some ''light'' \<and>
   themeToggle (page_of (theme_click (page_of (theme_load True first_visit)))) = Some (InnerHTML moonIcon) \<and>
   themeToggle (page_of (scripts_theme_load False first_visit)) \<noteq> None \<and>
   data_theme (page_of (scripts_theme_load False first_visit)) = Some ''light'' \<and>
   data_theme (page_of (scripts_theme_click (page_of (scripts_theme_load False first_visit)))) = Some ''dark'' \<and>
   stored_theme (page_of (scripts_theme_click (page_of (scripts_theme_load False first_visit)))) = Some ''dark'' \<and>
   themeToggle (page_of (scripts_theme_click (page_of (scripts_theme_load False first_visit)))) = Some (TextContent sun_emoji)"
proof -
  have t1: "themeToggle (page_of (theme_load True first_visit)) \<noteq> None"
    by (simp add: script_fields first_visit_fields)
  have d1: "data_theme (page_of (theme_load True first_visit)) = Some ''dark''"
    by (simp add: getAttribute_def getItem_def script_fields first_visit_fields currentTheme_def js_or_def)
  have t2: "themeToggle (page_of (scripts_theme_load False first_visit)) \<noteq> None"
    by (simp add: script_fields first_visit_fields)
  have d2: "data_theme (page_of (scripts_theme_load False first_visit)) = Some ''light''"
    by (simp add: getAttribute_def getItem_def script_fields first_visit_fields currentTheme_def js_or_def)
  show ?thesis
    using click_flips_theme [OF t1] click_flips_theme [OF t2] t1 d1 t2 d2
    by simp
qed

section \<open>Two clicks, and a reload\<close>

text \<open>
  The persisted value need not return after two clicks. On a first visit with a dark OS
  preference the load applies \<^verbatim>\<open>dark\<close> and stores nothing; two clicks later the
  attribute is \<^verbatim>\<open>dark\<close> again, but \<^verbatim>\<open>dark\<close> is now stored where nothing was.
\<close>
theorem two_clicks_change_persisted_value_counterexample:
  "data_theme (page_of (scripts_theme_load True first_visit)) = Some ''dark'' \<and>
   stored_theme (page_of (scripts_theme_load True first_visit)) = None \<and>
   stored_theme (page_of (scripts_theme_click (page_of (scripts_theme_click
      (page_of (scripts_theme_load True first_visit)))))) = Some ''dark'' \<and>
   stored_theme (page_of (theme_load True first_visit)) = None \<and>
   stored_theme (page_of (theme_click (page_of (theme_click
      (page_of (theme_load True first_visit)))))) = Some ''dark''"
  by (simp add: getAttribute_def getItem_def script_fields first_visit_fields
      currentTheme_def js_or_def newTheme_def)

text \<open>
  Claim C3, amended. For every page whose \<^verbatim>\<open>data-theme\<close> attribute is \<^verbatim>\<open>light\<close> or
  \<^verbatim>\<open>dark\<close>, two clicks return the attribute to its original value and leave that same
  value persisted. The persisted value is thus back at its original exactly when it
  agreed with the attribute before the first click.
\<close>
theorem two_clicks_restore_theme:
  assumes "data_theme p = Some t" and "t = ''light'' \<or> t = ''dark''"
  shows
    "data_theme (page_of (scripts_theme_click (page_of (scripts_theme_click p)))) = Some t \<and>
     stored_theme (page_of (scripts_theme_click (page_of (scripts_theme_click p)))) = Some t \<and>
     data_theme (page_of (theme_click (page_of (theme_click p)))) = Some t \<and>
     stored_theme (page_of (theme_click (page_of (theme_click p)))) = Some t"
  using assms
  by (auto simp add: getAttribute_def getItem_def script_fields newTheme_def)

theorem two_clicks_restore_theme_witness:
  "data_theme (page_of (theme_load False (visit_with ''dark''))) = Some ''dark'' \<and>
   stored_theme (page_of (theme_load False (visit_with ''dark''))) = Some ''dark'' \<and>
   data_theme (page_of (theme_click (page_of (theme_click
      (page_of (theme_load False (visit_with ''dark''))))))) = Some ''dark'' \<and>
   stored_theme (page_of (theme_click (page_of (theme_click
      (page_of (theme_load False (visit_with ''dark''))))))) = Some ''dark''"
proof -
  have d: "data_theme (page_of (theme_load False (visit_with ''dark''))) = Some ''dark''"
    by (simp add: getAttribute_def getItem_def script_fields visit_with_fields currentTheme_def js_or_def)
  have s: "stored_theme (page_of (theme_load False (visit_with ''dark''))) = Some ''dark''"
    by (simp add: getItem_def script_fields visit_with_fields)
  show ?thesis
    using two_clicks_restore_theme [OF d] d s by simp
qed

text \<open>
  Claim C5. The load-time path of either script leaves the whole storage as it was; the
  click listener writes the key \<^verbatim>\<open>theme\<close>, and only that key. The listener is the only
  place of either script that writes to the storage.
\<close>
theorem only_click_writes_storage:
  "localStorage (page_of (scripts_theme_load matches p)) = localStorage p \<and>
   localStorage (page_of (theme_load matches p)) = localStorage p \<and>
   localStorage (page_of (scripts_theme_click p)) = (localStorage p)(''theme'' \<mapsto> newTheme p) \<and>
   localStorage (page_of (theme_click p)) = (localStorage p)(''theme'' \<mapsto> newTheme p)"
  by (simp add: script_fields)

text \<open>
  Claim C6. The theme persists across a reload: when a page is loaded with the storage
  that a click has left, the load applies the theme that the click has set, whatever the
  OS colour-scheme signal and whatever else the reloaded document holds.
\<close>
theorem reload_reads_back_clicked_theme:
  assumes "localStorage q = localStorage (page_of (scripts_theme_click p))"
    and "localStorage r = localStorage (page_of (theme_click p))"
  shows
    "data_theme (page_of (scripts_theme_load matches q)) = data_theme (page_of (scripts_theme_click p)) \<and>
     data_theme (page_of (theme_load matches r)) = data_theme (page_of (theme_click p))"
proof -
  have ne: "newTheme p \<noteq> []"
    by (simp add: newTheme_def)
  have "stored_theme q = Some (newTheme p)" and "stored_theme r = Some (newTheme p)"
    using assms by (simp_all add: getItem_def script_fields)
  then have "currentTheme matches q = newTheme p" and "currentTheme matches r = newTheme p"
    using ne by (simp_all add: currentTheme_cases)
  then show ?thesis
    by (simp add: getAttribute_def script_fields)
qed

theorem reload_reads_back_clicked_theme_witness:
  "localStorage (visit_with ''dark'') = localStorage (page_of (scripts_theme_click first_visit)) \<and>
   localStorage (visit_with ''dark'') = localStorage (page_of (theme_click first_visit)) \<and>
   data_theme (page_of (scripts_theme_click first_visit)) = Some ''dark'' \<and>
   data_theme (page_of (scripts_theme_load False (visit_with ''dark''))) = Some ''dark'' \<and>
   data_theme (page_of (theme_load False (visit_with ''dark''))) = Some ''dark''"
proof -
  have n: "newTheme first_visit = ''dark''"
    by (simp add: newTheme_def getAttribute_def first_visit_fields)
  have q: "localStorage (visit_with ''dark'') = localStorage (page_of (scripts_theme_click first_visit))"
    by (simp add: script_fields visit_with_fields first_visit_fields n)
  have r: "localStorage (visit_with ''dark'') = localStorage (page_of (theme_click first_visit))"
    by (simp add: script_fields visit_with_fields first_visit_fields n)
  have d: "data_theme (page_of (scripts_theme_click first_visit)) = Some ''dark''"
    by (simp add: getAttribute_def script_fields n)
  have d': "data_theme (page_of (theme_click first_visit)) = Some ''dark''"
    by (simp add: getAttribute_def script_fields n)
  show ?thesis
    using reload_reads_back_clicked_theme [OF q r, of False] q r d d' by simp
qed

section \<open>Values outside light and dark\<close>

text \<open>
  The load does not keep the attribute within \<^verbatim>\<open>light\<close> and \<^verbatim>\<open>dark\<close> for every prior
  content of the storage: a stored \<^verbatim>\<open>blue\<close> is applied as it is, and stays stored.
\<close>
theorem load_applies_unvalidated_value_counterexample:
  "stored_theme (visit_with ''blue'') = Some ''blue'' \<and>
   data_theme (page_of (scripts_theme_load False (visit_with ''blue''))) = Some ''blue'' \<and>
   data_theme (page_of (theme_load False (visit_with ''blue''))) = Some ''blue'' \<and>
   stored_theme (page_of (theme_load False (visit_with ''blue''))) = Some ''blue'' \<and>
   ''blue'' \<noteq> ''light'' \<and> ''blue'' \<noteq> ''dark''"
  by (simp add: getAttribute_def getItem_def script_fields visit_with_fields
      currentTheme_def js_or_def)

lemma currentTheme_two_valued:
  "(currentTheme m p = ''light'' \<or> currentTheme m p = ''dark'') =
   (stored_theme p = None \<or> stored_theme p = Some [] \<or>
    stored_theme p = Some ''light'' \<or> stored_theme p = Some ''dark'')"
  by (cases "stored_theme p") (auto simp add: currentTheme_def js_or_def)

text \<open>
  Claim C4, amended. After every click the \<^verbatim>\<open>data-theme\<close> attribute and the persisted
  value are each \<^verbatim>\<open>light\<close> or \<^verbatim>\<open>dark\<close>, for every prior content of the storage. After
  the load-time initialization the attribute is \<^verbatim>\<open>light\<close> or \<^verbatim>\<open>dark\<close> exactly when the
  stored value was absent, empty, \<^verbatim>\<open>light\<close> or \<^verbatim>\<open>dark\<close>; the load leaves the persisted
  value as it found it.
\<close>
theorem theme_two_valued_after_click_and_valid_load:
  "(data_theme (page_of (scripts_theme_click p)) = Some ''light'' \<or>
    data_theme (page_of (scripts_theme_click p)) = Some ''dark'') \<and>
   (stored_theme (page_of (scripts_theme_click p)) = Some ''light'' \<or>
    stored_theme (page_of (scripts_theme_click p)) = Some ''dark'') \<and>
   (data_theme (page_of (theme_click p)) = Some ''light'' \<or>
    data_theme (page_of (theme_click p)) = Some ''dark'') \<and>
   (stored_theme (page_of (theme_click p)) = Some ''light'' \<or>
    stored_theme (page_of (theme_click p)) = Some ''dark'') \<and>
   ((data_theme (page_of (scripts_theme_load matches p)) = Some ''light'' \<or>
     data_theme (page_of (scripts_theme_load matches p)) = Some ''dark'') =
    (stored_theme p = None \<or> stored_theme p = Some [] \<or>
     stored_theme p = Some ''light'' \<or> stored_theme p = Some ''dark'')) \<and>
   ((data_theme (page_of (theme_load matches p)) = Some ''light'' \<or>
     data_theme (page_of (theme_load matches p)) = Some ''dark'') =
    (stored_theme p = None \<or> stored_theme p = Some [] \<or>
     stored_theme p = Some ''light'' \<or> stored_theme p = Some ''dark'')) \<and>
   stored_theme (page_of (scripts_theme_load matches p)) = stored_theme p \<and>
   stored_theme (page_of (theme_load matches p)) = stored_theme p"
proof -
  have new: "newTheme p = ''light'' \<or> newTheme p = ''dark''"
    by (simp add: newTheme_def)
  have click: "data_theme (page_of (scripts_theme_click p)) = Some (newTheme p)"
    "stored_theme (page_of (scripts_theme_click p)) = Some (newTheme p)"
    "data_theme (page_of (theme_click p)) = Some (newTheme p)"
    "stored_theme (page_of (theme_click p)) = Some (newTheme p)"
    by (simp_all add: getAttribute_def getItem_def script_fields)
  have load: "data_theme (page_of (scripts_theme_load matches p)) = Some (currentTheme matches p)"
    "data_theme (page_of (theme_load matches p)) = Some (currentTheme matches p)"
    "stored_theme (page_of (scripts_theme_load matches p)) = stored_theme p"
    "stored_theme (page_of (theme_load matches p)) = stored_theme p"
    by (simp_all add: getAttribute_def getItem_def script_fields)
  show ?thesis
    unfolding click load using new currentTheme_two_valued [of matches p] by simp
qed

text \<open>
  Claim C9. The load does not validate the stored value. A non-empty stored string \<open>s\<close>
  becomes the \<^verbatim>\<open>data-theme\<close> attribute verbatim, and on a page with a toggle the icon
  is the moon whenever \<open>s\<close> is not exactly \<^verbatim>\<open>dark\<close>. A stored empty string is treated
  as absent: the OS preference decides, as it does on a page \<open>q\<close> with nothing stored.
\<close>
theorem load_does_not_validate_stored_value:
  assumes "stored_theme p = Some s"
  shows
    "(s \<noteq> [] \<longrightarrow>
        data_theme (page_of (scripts_theme_load matches p)) = Some s \<and>
        data_theme (page_of (theme_load matches p)) = Some s \<and>
        (themeToggle p \<noteq> None \<and> s \<noteq> ''dark'' \<longrightarrow>
           themeToggle (page_of (scripts_theme_load matches p)) = Some (TextContent moon_emoji) \<and>
           themeToggle (page_of (theme_load matches p)) = Some (InnerHTML moonIcon))) \<and>
     (s = [] \<longrightarrow>
        data_theme (page_of (scripts_theme_load matches p)) =
          Some (if matches then ''dark'' else ''light'') \<and>
        data_theme (page_of (theme_load matches p)) =
          Some (if matches then ''dark'' else ''light'') \<and>
        (stored_theme q = None \<longrightarrow>
           data_theme (page_of (scripts_theme_load matches p)) =
             data_theme (page_of (scripts_theme_load matches q)) \<and>
           data_theme (page_of (theme_load matches p)) =
             data_theme (page_of (theme_load matches q))))"
proof -
  have nonempty: "currentTheme matches p = s" if "s \<noteq> []"
    using assms that by (simp add: currentTheme_cases)
  have empty: "currentTheme matches p = (if matches then ''dark'' else ''light'')" if "s = []"
    using assms that by (simp add: currentTheme_cases)
  have absent: "currentTheme matches q = (if matches then ''dark'' else ''light'')"
    if "stored_theme q = None"
    using that by (simp add: currentTheme_cases)
  show ?thesis
    using nonempty empty absent
    by (auto simp add: getAttribute_def script_fields)
qed

theorem load_does_not_validate_stored_value_witness:
  "stored_theme (visit_with ''blue'') = Some ''blue'' \<and> ''blue'' \<noteq> [] \<and>
   themeToggle (visit_with ''blue'') \<noteq> None \<and> ''blue'' \<noteq> ''dark'' \<and>
   data_theme (page_of (scripts_theme_load True (visit_with ''blue''))) = Some ''blue'' \<and>
   data_theme (page_of (theme_load True (visit_with ''blue''))) = Some ''blue'' \<and>
   themeToggle (page_of (scripts_theme_load True (visit_with ''blue''))) = Some (TextContent moon_emoji) \<and>
   themeToggle (page_of (theme_load True (visit_with ''blue''))) = Some (InnerHTML moonIcon) \<and>
   stored_theme (visit_with []) = Some [] \<and> stored_theme first_visit = None \<and>
   data_theme (page_of (scripts_theme_load True (visit_with []))) = Some ''dark'' \<and>
   data_theme (page_of (theme_load False (visit_with []))) = Some ''light'' \<and>
   data_theme (page_of (scripts_theme_load True (visit_with []))) =
     data_theme (page_of (scripts_theme_load True first_visit)) \<and>
   data_theme (page_of (theme_load False (visit_with []))) =
     data_theme (page_of (theme_load False first_visit))"
proof -
  have blue: "stored_theme (visit_with ''blue'') = Some ''blue''"
    by (simp add: getItem_def visit_with_fields)
  have empty: "stored_theme (visit_with []) = Some []"
    by (simp add: getItem_def visit_with_fields)
  have absent: "stored_theme first_visit = None"
    by (simp add: getItem_def first_visit_fields)
  have toggle: "themeToggle (visit_with ''blue'') \<noteq> None"
    by (simp add: visit_with_fields)
  show ?thesis
    using load_does_not_validate_stored_value [OF blue, of True]
      load_does_not_validate_stored_value [OF empty, of True first_visit]
      load_does_not_validate_stored_value [OF empty, of False first_visit]
      blue empty absent toggle
    by auto
qed

text \<open>
  Claim C10. One click normalizes the state: for every prior value of the \<^verbatim>\<open>data-theme\<close>
  attribute, absent or outside \<^verbatim>\<open>light\<close> and \<^verbatim>\<open>dark\<close> included, the attribute is
  \<^verbatim>\<open>light\<close> or \<^verbatim>\<open>dark\<close> after the click and the persisted value equals it; every
  prior value other than \<^verbatim>\<open>dark\<close> leads to \<^verbatim>\<open>dark\<close>.
\<close>
theorem click_normalizes_theme:
  "(data_theme (page_of (scripts_theme_click p)) = Some ''light'' \<or>
    data_theme (page_of (scripts_theme_click p)) = Some ''dark'') \<and>
   stored_theme (page_of (scripts_theme_click p)) = data_theme (page_of (scripts_theme_click p)) \<and>
   (data_theme (page_of (theme_click p)) = Some ''light'' \<or>
    data_theme (page_of (theme_click p)) = Some ''dark'') \<and>
   stored_theme (page_of (theme_click p)) = data_theme (page_of (theme_click p)) \<and>
   (data_theme p \<noteq> Some ''dark'' \<longrightarrow>
      data_theme (page_of (scripts_theme_click p)) = Some ''dark'' \<and>
      data_theme (page_of (theme_click p)) = Some ''dark'')"
proof -
  have click: "data_theme (page_of (scripts_theme_click p)) = Some (newTheme p)"
    "stored_theme (page_of (scripts_theme_click p)) = Some (newTheme p)"
    "data_theme (page_of (theme_click p)) = Some (newTheme p)"
    "stored_theme (page_of (theme_click p)) = Some (newTheme p)"
    by (simp_all add: getAttribute_def getItem_def script_fields)
  show ?thesis
    unfolding click by (simp add: newTheme_def)
qed

theorem click_normalizes_theme_witness:
  "data_theme (page_of (scripts_theme_load True (visit_with ''blue''))) = Some ''blue'' \<and>
   Some ''blue'' \<noteq> Some ''dark'' \<and>
   data_theme (page_of (scripts_theme_click (page_of (scripts_theme_load True (visit_with ''blue''))))) = Some ''dark'' \<and>
   stored_theme (page_of (scripts_theme_click (page_of (scripts_theme_load True (visit_with ''blue''))))) = Some ''dark'' \<and>
   data_theme first_visit = None \<and>
   data_theme (page_of (theme_click first_visit)) = Some ''dark'' \<and>
   stored_theme (page_of (theme_click first_visit)) = Some ''dark''"
proof -
  have blue: "data_theme (page_of (scripts_theme_load True (visit_with ''blue''))) = Some ''blue''"
    by (simp add: getAttribute_def getItem_def script_fields visit_with_fields
        currentTheme_def js_or_def)
  have absent: "data_theme first_visit = None"
    by (simp add: getAttribute_def first_visit_fields)
  show ?thesis
    using click_normalizes_theme [of "page_of (scripts_theme_load True (visit_with ''blue''))"]
      click_normalizes_theme [of first_visit] blue absent
    by simp
qed

section \<open>The two scripts side by side\<close>

lemma newTheme_cong: "attributes a = attributes b \<Longrightarrow> newTheme a = newTheme b"
  by (simp add: newTheme_def getAttribute_def)

lemma click_event_agree:
  assumes "attributes a = attributes b" and "localStorage a = localStorage b"
    and "click_listener a = click_listener b"
  shows "attributes (click_event scripts_theme_click a) = attributes (click_event theme_click b) \<and>
         localStorage (click_event scripts_theme_click a) = localStorage (click_event theme_click b) \<and>
         click_listener (click_event scripts_theme_click a) = click_listener (click_event theme_click b)"
  using assms newTheme_cong [OF assms(1)]
  by (simp add: click_event_def script_fields)

lemma clicks_agree:
  "attributes a = attributes b \<Longrightarrow> localStorage a = localStorage b \<Longrightarrow>
   click_listener a = click_listener b \<Longrightarrow>
   attributes (clicks scripts_theme_click n a) = attributes (clicks theme_click n b) \<and>
   localStorage (clicks scripts_theme_click n a) = localStorage (clicks theme_click n b) \<and>
   click_listener (clicks scripts_theme_click n a) = click_listener (clicks theme_click n b)"
proof (induction n arbitrary: a b)
  case 0
  then show ?case by simp
next
  case (Suc n)
  from click_event_agree [OF Suc.prems]
  show ?case by (simp add: Suc.IH)
qed

lemma scripts_icon_click_event:
  "scripts_icon_shown a \<Longrightarrow> scripts_icon_shown (click_event scripts_theme_click a)"
  by (simp add: scripts_icon_shown_def click_event_def script_fields getAttribute_def)

lemma theme_icon_click_event:
  "theme_icon_shown a \<Longrightarrow> theme_icon_shown (click_event theme_click a)"
  by (simp add: theme_icon_shown_def click_event_def script_fields getAttribute_def)

lemma scripts_icon_clicks:
  "scripts_icon_shown a \<Longrightarrow> scripts_icon_shown (clicks scripts_theme_click n a)"
  by (induction n arbitrary: a) (simp_all add: scripts_icon_click_event)

lemma theme_icon_clicks:
  "theme_icon_shown a \<Longrightarrow> theme_icon_shown (clicks theme_click n a)"
  by (induction n arbitrary: a) (simp_all add: theme_icon_click_event)

lemma icon_shown_after_load:
  "themeToggle p \<noteq> None \<Longrightarrow> scripts_icon_shown (page_of (scripts_theme_load m p))"
  "themeToggle p \<noteq> None \<Longrightarrow> theme_icon_shown (page_of (theme_load m p))"
  by (auto simp add: scripts_icon_shown_def theme_icon_shown_def script_fields getAttribute_def)

lemma no_toggle_click_event:
  "themeToggle a = None \<Longrightarrow> themeToggle (click_event scripts_theme_click a) = None"
  "themeToggle a = None \<Longrightarrow> themeToggle (click_event theme_click a) = None"
  by (simp_all add: click_event_def script_fields)

lemma no_toggle_clicks:
  "themeToggle a = None \<Longrightarrow> themeToggle (clicks scripts_theme_click n a) = None"
  "themeToggle a = None \<Longrightarrow> themeToggle (clicks theme_click n a) = None"
  by (induction n arbitrary: a) (simp_all add: no_toggle_click_event)

text \<open>
  Claim C8. The two scripts are state-equivalent. For every page, every OS colour-scheme
  signal and every number of clicks after the load, \<^verbatim>\<open>src/scripts/theme.js\<close> and
  \<^verbatim>\<open>src/theme.js\<close> leave the same attributes (so the same \<^verbatim>\<open>data-theme\<close>), the same
  storage (so the same persisted theme) and the same listener registration. They differ
  in the markup of the toggle only: each shows the icon of the current theme, the first
  as emoji text, the second as inline SVG; on a page without a toggle both leave none.
\<close>
theorem theme_scripts_state_equivalent:
  "data_theme (scripts_theme_session matches n p) = data_theme (theme_session matches n p) \<and>
   stored_theme (scripts_theme_session matches n p) = stored_theme (theme_session matches n p) \<and>
   attributes (scripts_theme_session matches n p) = attributes (theme_session matches n p) \<and>
   localStorage (scripts_theme_session matches n p) = localStorage (theme_session matches n p) \<and>
   click_listener (scripts_theme_session matches n p) = click_listener (theme_session matches n p) \<and>
   (themeToggle p \<noteq> None \<longrightarrow>
      scripts_icon_shown (scripts_theme_session matches n p) \<and>
      theme_icon_shown (theme_session matches n p)) \<and>
   (themeToggle p = None \<longrightarrow>
      themeToggle (scripts_theme_session matches n p) = None \<and>
      themeToggle (theme_session matches n p) = None)"
proof -
  let ?a = "page_of (scripts_theme_load matches p)"
  let ?b = "page_of (theme_load matches p)"
  have "attributes ?a = attributes ?b" "localStorage ?a = localStorage ?b"
    "click_listener ?a = click_listener ?b"
    by (simp_all add: script_fields)
  from clicks_agree [OF this, of n]
  have state: "attributes (scripts_theme_session matches n p) = attributes (theme_session matches n p)"
    "localStorage (scripts_theme_session matches n p) = localStorage (theme_session matches n p)"
    "click_listener (scripts_theme_session matches n p) = click_listener (theme_session matches n p)"
    by (simp_all add: scripts_theme_session_def theme_session_def)
  have icons: "scripts_icon_shown (scripts_theme_session matches n p) \<and>
      theme_icon_shown (theme_session matches n p)" if "themeToggle p \<noteq> None"
    using that
    by (simp add: scripts_theme_session_def theme_session_def scripts_icon_clicks
        theme_icon_clicks icon_shown_after_load)
  have none: "themeToggle (scripts_theme_session matches n p) = None \<and>
      themeToggle (theme_session matches n p) = None" if "themeToggle p = None"
    using that
    by (simp add: scripts_theme_session_def theme_session_def no_toggle_clicks script_fields)
  show ?thesis
    using state icons none by (simp add: getAttribute_def getItem_def)
qed

theorem theme_scripts_state_equivalent_witness:
  "themeToggle first_visit \<noteq> None \<and>
   data_theme (scripts_theme_session True 3 first_visit) = Some ''light'' \<and>
   data_theme (theme_session True 3 first_visit) = Some ''light'' \<and>
   stored_theme (scripts_theme_session True 3 first_visit) = Some ''light'' \<and>
   stored_theme (theme_session True 3 first_visit) = Some ''light'' \<and>
   themeToggle (scripts_theme_session True 3 first_visit) = Some (TextContent moon_emoji) \<and>
   themeToggle (theme_session True 3 first_visit) = Some (InnerHTML moonIcon) \<and>
   themeToggle no_toggle_page = None \<and>
   themeToggle (scripts_theme_session True 3 no_toggle_page) = None \<and>
   themeToggle (theme_session True 3 no_toggle_page) = None"
proof -
  have toggle: "themeToggle first_visit \<noteq> None" "themeToggle no_toggle_page = None"
    by (simp_all add: first_visit_def no_toggle_page_def)
  have run: "data_theme (scripts_theme_session True 3 first_visit) = Some ''light''"
    "stored_theme (scripts_theme_session True 3 first_visit) = Some ''light''"
    by (simp_all add: scripts_theme_session_def numeral_3_eq_3 click_event_def script_fields
        getAttribute_def getItem_def first_visit_fields currentTheme_def js_or_def newTheme_def)
  note with_toggle = theme_scripts_state_equivalent [of True 3 first_visit]
  note without_toggle = theme_scripts_state_equivalent [of True 3 no_toggle_page]
  have same: "data_theme (theme_session True 3 first_visit) = Some ''light''"
    "stored_theme (theme_session True 3 first_visit) = Some ''light''"
    using run
    unfolding with_toggle [THEN conjunct1] with_toggle [THEN conjunct2, THEN conjunct1]
    by this+
  have "scripts_icon_shown (scripts_theme_session True 3 first_visit)"
    "theme_icon_shown (theme_session True 3 first_visit)"
    using with_toggle toggle(1) by blast+
  then have icons:
    "themeToggle (scripts_theme_session True 3 first_visit) = Some (TextContent moon_emoji)"
    "themeToggle (theme_session True 3 first_visit) = Some (InnerHTML moonIcon)"
    unfolding scripts_icon_shown_def theme_icon_shown_def run(1) same(1)
    by simp_all
  have none: "themeToggle (scripts_theme_session True 3 no_toggle_page) = None"
    "themeToggle (theme_session True 3 no_toggle_page) = None"
    using without_toggle toggle(2) by blast+
  show ?thesis
    using toggle run same icons none by simp
qed

section \<open>The order of the RSS feed\<close>

lemma mset_newest_first_insert: "mset (newest_first_insert e es) = add_mset e (mset es)"
  by (induction es) simp_all

lemma mset_newest_first: "mset (newest_first es) = mset es"
  by (induction es) (simp_all add: mset_newest_first_insert)

lemma set_newest_first_insert: "set (newest_first_insert e es) = insert e (set es)"
  using mset_newest_first_insert [of e es, THEN arg_cong, of set_mset] by simp

lemma not_older_newest_first_insert:
  "sorted_wrt (\<lambda>a b. rss_pubDate b \<le> rss_pubDate a) es \<Longrightarrow>
   sorted_wrt (\<lambda>a b. rss_pubDate b \<le> rss_pubDate a) (newest_first_insert e es)"
  by (induction es) (auto simp add: set_newest_first_insert)

lemma not_older_newest_first:
  "sorted_wrt (\<lambda>a b. rss_pubDate b \<le> rss_pubDate a) (newest_first es)"
  by (induction es) (simp_all add: not_older_newest_first_insert)

lemma strictly_newer:
  "distinct (map rss_pubDate es) \<Longrightarrow>
   sorted_wrt (\<lambda>a b. rss_pubDate b \<le> rss_pubDate a) es \<Longrightarrow> sorted_wrt newer es"
proof (induction es)
  case Nil
  then show ?case by simp
next
  case (Cons e es)
  have "newer e x" if "x \<in> set es" for x
  proof -
    from Cons.prems(2) that have "rss_pubDate x \<le> rss_pubDate e"
      by simp
    moreover from Cons.prems(1) have "rss_pubDate e \<notin> rss_pubDate ` set es"
      by simp
    with that have "rss_pubDate x \<noteq> rss_pubDate e"
      by (metis imageI)
    ultimately show ?thesis
      by (simp add: newer_def)
  qed
  with Cons show ?case
    by simp
qed

lemma newer_newest_first:
  assumes "distinct (map rss_pubDate es)"
  shows "sorted_wrt newer (newest_first es)"
proof -
  have "mset (map rss_pubDate (newest_first es)) = mset (map rss_pubDate es)"
    by (simp add: mset_newest_first)
  then have "distinct (map rss_pubDate (newest_first es))"
    using assms by (metis mset_eq_imp_distinct_iff)
  then show ?thesis
    using not_older_newest_first by (rule strictly_newer)
qed

text \<open>The walk succeeds on dated articles and yields their entries in input order.\<close>

lemma rss_entries_dated:
  "articles_dated pages \<Longrightarrow>
   \<exists>es. rss_entries pol pages = Inr es \<and>
        map Some es = map rss_entry_of (filter is_article pages)"
proof (induction pages)
  case Nil
  then show ?case by simp
next
  case (Cons p ps)
  from Cons.prems have "articles_dated ps"
    by (simp add: articles_dated_def split: if_splits)
  with Cons.IH obtain es where es: "rss_entries pol ps = Inr es"
    "map Some es = map rss_entry_of (filter is_article ps)"
    by blast
  show ?case
  proof (cases "is_article p")
    case False
    with es show ?thesis by simp
  next
    case True
    with Cons.prems obtain t where "published p = Some t"
      by (auto simp add: articles_dated_def)
    then obtain e where "rss_entry_of p = Some e"
      by (simp add: rss_entry_of_def)
    with True es show ?thesis by simp
  qed
qed

lemma rss_entry_of_pubDate:
  "rss_entry_of p = Some e \<Longrightarrow> published p = Some (rss_pubDate e)"
  by (simp add: rss_entry_of_def split: option.splits) auto

lemma entries_distinct_dates:
  assumes "map Some es = map rss_entry_of ps" and "distinct (map published ps)"
  shows "distinct (map rss_pubDate es)"
proof -
  have "map (Some \<circ> rss_pubDate) es = map published ps"
    using assms(1)
  proof (induction es arbitrary: ps)
    case Nil
    then show ?case by simp
  next
    case (Cons e es)
    then obtain q qs where ps: "ps = q # qs" and q: "rss_entry_of q = Some e"
      and rest: "map Some es = map rss_entry_of qs"
      by (cases ps) auto
    from Cons.IH [OF rest] rss_entry_of_pubDate [OF q] ps show ?case
      by simp
  qed
  then have "distinct (map (Some \<circ> rss_pubDate) es)"
    using assms(2) by simp
  then show ?thesis
    by (simp add: distinct_map comp_def inj_on_def)
qed

text \<open>
  Claim C7. For every list of page records whose article-type pages all have a published
  timestamp, no two the same, the generator returns a feed under either policy; its
  entries are strictly ordered by publish date, newest first; there is one entry per
  article-type page, and each entry is the entry of its page: it carries the page's
  title, its canonical URL as link, its description and its publish date.
\<close>
theorem rss_feed_newest_first_one_entry_per_article:
  assumes "articles_dated pages" and "distinct_dates pages"
  shows "\<exists>es. rss_feed pol pages = Inr es \<and>
           sorted_wrt newer es \<and>
           length es = length (filter is_article pages) \<and>
           image_mset Some (mset es) = image_mset rss_entry_of (mset (filter is_article pages))"
proof -
  from rss_entries_dated [OF assms(1)] obtain es where
    walk: "rss_entries pol pages = Inr es" and
    entries: "map Some es = map rss_entry_of (filter is_article pages)"
    by blast
  have feed: "rss_feed pol pages = Inr (newest_first es)"
    by (simp add: rss_feed_def walk)
  have "distinct (map rss_pubDate es)"
    using entries assms(2) unfolding distinct_dates_def by (rule entries_distinct_dates)
  then have ordered: "sorted_wrt newer (newest_first es)"
    by (rule newer_newest_first)
  have "length (map Some es) = length (map rss_entry_of (filter is_article pages))"
    by (simp only: entries)
  then have len: "length (newest_first es) = length (filter is_article pages)"
    using mset_newest_first [of es, THEN arg_cong, of size] by simp
  have "mset (map Some es) = mset (map rss_entry_of (filter is_article pages))"
    by (simp only: entries)
  then have "image_mset Some (mset (newest_first es)) =
      image_mset rss_entry_of (mset (filter is_article pages))"
    by (simp add: mset_newest_first)
  with feed ordered len show ?thesis
    by blast
qed

theorem rss_feed_newest_first_one_entry_per_article_witness:
  "articles_dated example_pages \<and> distinct_dates example_pages \<and>
   (\<exists>es. rss_feed SkipWithWarning example_pages = Inr es \<and>
         sorted_wrt newer es \<and>
         length es = length (filter is_article example_pages) \<and>
         image_mset Some (mset es) =
           image_mset rss_entry_of (mset (filter is_article example_pages))) \<and>
   rss_feed SkipWithWarning example_pages =
     Inr [\<lparr>rss_title = ''Reviewing'', rss_link = ''https://example.org/blog/reviewing.html'',
           rss_description = ''On code review'', rss_pubDate = 200\<rparr>,
          \<lparr>rss_title = ''First impressions'',
           rss_link = ''https://example.org/blog/first-impressions.html'',
           rss_description = ''A first look'', rss_pubDate = 100\<rparr>]"
proof -
  have dated: "articles_dated example_pages"
    by (simp add: articles_dated_def example_pages_def is_article_def)
  have dates: "distinct_dates example_pages"
    by (simp add: distinct_dates_def example_pages_def is_article_def)
  have feed: "rss_feed SkipWithWarning example_pages =
     Inr [\<lparr>rss_title = ''Reviewing'', rss_link = ''https://example.org/blog/reviewing.html'',
           rss_description = ''On code review'', rss_pubDate = 200\<rparr>,
          \<lparr>rss_title = ''First impressions'',
           rss_link = ''https://example.org/blog/first-impressions.html'',
           rss_description = ''A first look'', rss_pubDate = 100\<rparr>]"
    by (simp add: rss_feed_def example_pages_def is_article_def rss_entry_of_def)
  from rss_feed_newest_first_one_entry_per_article [OF dated dates, of SkipWithWarning]
  show ?thesis
    using dated dates feed by blast
qed

end
